theory Spec2Isabelle
  imports Main "HOL-Library.Word"
begin

section \<open>The page fill worker of \<^verbatim>\<open>sched/pg_worker.c\<close>\<close>

text \<open>
  The file keeps its state in globals and talks to the scheduler and to the
  architecture layer through calls whose code is elsewhere. The model passes the
  globals around as a record, takes the results of the architecture calls from a
  record of functions, and writes every call that leaves the file into a log, in the
  order the file makes them.
\<close>

subsection \<open>Tasks, build options, state\<close>

text \<open>
  Of a task control block the file reads one field, \<open>sched_priority\<close>; it is read
  into an \<open>int\<close> (line 173). \<open>pid\<close> tells tasks apart.
\<close>

record tcb =
  pid :: nat
  sched_priority :: int

text \<open>
  The build options the file tests, and the constants it takes from headers that are
  not part of the file: \<open>OK\<close>, \<open>EBUSY\<close> and \<open>ENOSYS\<close> are parameters
  here. Line 486 reads \<^verbatim>\<open>#if defined() && defined(CONFIG_PAGING_TIMEOUT_TICKS)\<close>;
  the first operand names no macro, so the value it stands for is a parameter too
  (\<open>defined_empty\<close>).
\<close>

record config =
  CONFIG_PAGING_BLOCKINGFILL :: bool
  CONFIG_PAGING_TIMEOUT_TICKS :: "32 word option"
  CONFIG_PAGING_DEFPRIO :: int
  defined_empty :: bool
  OK :: int
  EBUSY :: int
  ENOSYS :: int

text \<open>The calls that leave the file.\<close>

datatype event =
    Up_checkmapping tcb
  | Up_allocpage tcb
  | Up_fillpage tcb
  | Up_unblock_task tcb
  | Sched_setpriority int
  | Kill_SIGWORK
  | Dbg_timeout

text \<open>
  The architecture layer: what \<open>up_checkmapping\<close>, \<open>up_allocpage\<close> and
  \<open>up_fillpage\<close> return for a task, given the calls made so far.
\<close>

record arch =
  up_checkmapping :: "event list \<Rightarrow> tcb \<Rightarrow> int"
  up_allocpage :: "event list \<Rightarrow> tcb \<Rightarrow> int"
  up_fillpage :: "event list \<Rightarrow> tcb \<Rightarrow> int"

text \<open>
  The globals: the slot \<open>g_pendingfilltcb\<close> (\<open>None\<close> is \<open>NULL\<close>), the list
  \<open>g_waitingforfill\<close> from its head, \<open>g_fillresult\<close>, \<open>g_starttime\<close>, the
  system clock \<open>g_system_timer\<close>, and the priority field of the worker's own task
  control block (what \<open>sched_gettcb(g_pgworker)\<close> points to), then the log.
\<close>

record pg_state =
  g_pendingfilltcb :: "tcb option"
  g_waitingforfill :: "tcb list"
  g_fillresult :: int
  g_starttime :: "32 word"
  g_system_timer :: "32 word"
  wtcb_priority :: int
  calls :: "event list"

text \<open>
  A run ends in a fault, with the state it was reached in, or goes on. The faults
  are a failed \<open>ASSERT\<close>/\<open>DEBUGASSERT\<close> and a call that hands \<open>NULL\<close> to the
  scheduler as a task.
\<close>

datatype fault = Assertion_failed | Null_tcb

type_synonym outcome = "(fault \<times> pg_state) + pg_state"

subsection \<open>The calls that leave the file\<close>

definition record_call :: "event \<Rightarrow> pg_state \<Rightarrow> pg_state" where
  "record_call ev s = s\<lparr>calls := calls s @ [ev]\<rparr>"

text \<open>
  Modelled from the spec: \<open>sched_setpriority\<close>, the scheduler's "set priority"
  (its code is not in the file). The file only ever calls it on the worker's own task
  control block, so it writes \<open>wtcb_priority\<close>.
\<close>

definition sched_setpriority :: "int \<Rightarrow> pg_state \<Rightarrow> pg_state" where
  "sched_setpriority priority s = record_call (Sched_setpriority priority) (s\<lparr>wtcb_priority := priority\<rparr>)"

text \<open>
  Modelled from the spec: \<open>up_unblock_task\<close>, the scheduler's "unblock task" (its
  code is not in the file): the call is logged.
\<close>

definition up_unblock_task :: "tcb \<Rightarrow> pg_state \<Rightarrow> pg_state" where
  "up_unblock_task t s = record_call (Up_unblock_task t) s"

text \<open>
  Modelled from the spec: \<open>kill(g_pgworker, SIGWORK)\<close>, the worker's wake signal
  (signal delivery is not in the file): the call is logged.
\<close>

definition kill_SIGWORK :: "pg_state \<Rightarrow> pg_state" where
  "kill_SIGWORK s = record_call Kill_SIGWORK s"

text \<open>
  Modelled from the spec: \<open>dq_remfirst\<close>, the queue's "remove-highest" (queue.h is
  not in the file): the head and the rest, or \<open>NULL\<close> and the empty queue.
\<close>

definition dq_remfirst :: "tcb list \<Rightarrow> tcb option \<times> tcb list" where
  "dq_remfirst q = (case q of [] \<Rightarrow> (None, []) | t # ts \<Rightarrow> (Some t, ts))"

text \<open>
  Modelled from the spec: the macros \<open>ASSERT\<close> and \<open>DEBUGASSERT\<close> (assert.h is
  not in the file), both a fatal assertion: the run stops in the state the test was
  made in.
\<close>

definition ASSERT :: "bool \<Rightarrow> pg_state \<Rightarrow> outcome" where
  "ASSERT b s = (if b then Inr s else Inl (Assertion_failed, s))"

definition DEBUGASSERT :: "bool \<Rightarrow> pg_state \<Rightarrow> outcome" where
  "DEBUGASSERT b s = (if b then Inr s else Inl (Assertion_failed, s))"

text \<open>Sequencing: a fault ends the run.\<close>

definition and_then :: "outcome \<Rightarrow> (pg_state \<Rightarrow> outcome) \<Rightarrow> outcome" where
  "and_then r f = (case r of Inl x \<Rightarrow> Inl x | Inr s \<Rightarrow> f s)"

subsection \<open>\<^verbatim>\<open>pg_callback\<close> (lines 157 to 203)\<close>

text \<open>
  Compiled when \<open>CONFIG_PAGING_BLOCKINGFILL\<close> is not defined. The \<open>tcb\<close>
  argument is not used by the body.
\<close>

definition pg_callback :: "config \<Rightarrow> tcb \<Rightarrow> int \<Rightarrow> pg_state \<Rightarrow> pg_state" where
  "pg_callback c tcb result s =
     kill_SIGWORK
       (case g_pendingfilltcb s of
          None \<Rightarrow> s
        | Some p \<Rightarrow>
            (let priority = sched_priority p;
                 priority = (case g_waitingforfill s of
                               [] \<Rightarrow> priority
                             | htcb # _ \<Rightarrow>
                                 if priority < sched_priority htcb then sched_priority htcb
                                 else priority);
                 s1 = (if priority > wtcb_priority s then sched_setpriority priority s else s);
                 result = (if result = - EBUSY c then - ENOSYS c else result)
             in s1\<lparr>g_fillresult := result\<rparr>))"

subsection \<open>\<^verbatim>\<open>pg_startfill\<close> (lines 231 to 312)\<close>

definition pg_startfill :: "config \<Rightarrow> arch \<Rightarrow> pg_state \<Rightarrow> outcome" where
  "pg_startfill c a s =
     (let first = fst (dq_remfirst (g_waitingforfill s));
          s1 = s\<lparr>g_pendingfilltcb := first, g_waitingforfill := snd (dq_remfirst (g_waitingforfill s))\<rparr>
      in case first of
           None \<Rightarrow> Inr s1
         | Some t \<Rightarrow>
             (let result = up_checkmapping a (calls s1) t;
                  s2 = record_call (Up_checkmapping t) s1
              in if result = OK c
                 then Inr ((up_unblock_task t s2)\<lparr>g_pendingfilltcb := None\<rparr>)
                 else
                   (let result = up_allocpage a (calls s2) t;
                        s3 = record_call (Up_allocpage t) s2
                    in and_then (DEBUGASSERT (result = OK c) s3) (\<lambda>s3.
                         (let result = up_fillpage a (calls s3) t;
                              s4 = record_call (Up_fillpage t) s3
                          in and_then (DEBUGASSERT (result = OK c) s4) (\<lambda>s4.
                               if CONFIG_PAGING_BLOCKINGFILL c then Inr s4
                               else (case CONFIG_PAGING_TIMEOUT_TICKS c of
                                       None \<Rightarrow> Inr s4
                                     | Some ticks \<Rightarrow>
                                         Inr (s4\<lparr>g_starttime := g_system_timer s4\<rparr>))))))))"

subsection \<open>\<^verbatim>\<open>pg_alldone\<close> (lines 338 to 343) and \<^verbatim>\<open>pg_fillcomplete\<close> (lines 370 to 377)\<close>

text \<open>
  \<open>pg_alldone\<close> sets the priority of the task at the head of \<open>g_readytorun\<close>.
  It runs in the worker's context (its header says so), where that task is the
  worker.
\<close>

definition pg_alldone :: "config \<Rightarrow> pg_state \<Rightarrow> pg_state" where
  "pg_alldone c s = sched_setpriority (CONFIG_PAGING_DEFPRIO c) (s\<lparr>g_pendingfilltcb := None\<rparr>)"

text \<open>
  \<open>pg_fillcomplete\<close> hands the slot to \<open>up_unblock_task\<close> without a test; with
  the slot empty the scheduler gets \<open>NULL\<close>.
\<close>

definition pg_fillcomplete :: "pg_state \<Rightarrow> outcome" where
  "pg_fillcomplete s =
     (case g_pendingfilltcb s of
        None \<Rightarrow> Inl (Null_tcb, s)
      | Some t \<Rightarrow> Inr (up_unblock_task t s))"

subsection \<open>\<^verbatim>\<open>pg_worker\<close> (lines 405 to 536)\<close>

text \<open>
  The block of lines 445 to 510, which the source compiles under
  \<^verbatim>\<open>#ifdef CONFIG_PAGING_BLOCKINGFILL\<close> (line 444): the test of the slot and of
  \<open>g_fillresult\<close>.
\<close>

definition pg_worker_ifdef :: "config \<Rightarrow> arch \<Rightarrow> pg_state \<Rightarrow> outcome" where
  "pg_worker_ifdef c a s =
     (case g_pendingfilltcb s of
        Some _ \<Rightarrow>
          if g_fillresult s \<noteq> - EBUSY c then
            and_then (ASSERT (g_fillresult s = OK c) s) (\<lambda>s.
            and_then (pg_fillcomplete s) (\<lambda>s.
              if g_waitingforfill s \<noteq> [] then pg_startfill c a s
              else Inr (pg_alldone c s)))
          else if defined_empty c then
            (case CONFIG_PAGING_TIMEOUT_TICKS c of
               None \<Rightarrow> Inr s
             | Some ticks \<Rightarrow>
                 (let s1 = record_call Dbg_timeout s
                  in ASSERT (g_system_timer s1 - g_starttime s1 < ticks) s1))
          else Inr s
      | None \<Rightarrow>
          if g_waitingforfill s \<noteq> [] then pg_startfill c a s else Inr s)"

text \<open>
  The loop of lines 516 to 528, in the \<^verbatim>\<open>#else\<close> block: as long as the queue has a
  head, \<open>pg_startfill\<close> then \<open>pg_fillcomplete\<close>. Every \<open>pg_startfill\<close> that
  returns has taken the head off the queue, which is why the loop ends.
\<close>

function pg_worker_while :: "config \<Rightarrow> arch \<Rightarrow> pg_state \<Rightarrow> outcome" where
  "pg_worker_while c a s =
     (if g_waitingforfill s \<noteq> [] then
        (case pg_startfill c a s of
           Inl x \<Rightarrow> Inl x
         | Inr s1 \<Rightarrow>
             (case pg_fillcomplete s1 of
                Inl x \<Rightarrow> Inl x
              | Inr s2 \<Rightarrow> pg_worker_while c a s2))
      else Inr s)"
  by pat_completeness auto
termination
proof (relation "measure (\<lambda>(c, a, s). length (g_waitingforfill s))")
  show "wf (measure (\<lambda>(c, a, s). length (g_waitingforfill s)))"
    by simp
next
  fix c :: config and a :: arch and s s1 s2 :: pg_state
  assume q: "g_waitingforfill s \<noteq> []"
    and sf: "pg_startfill c a s = Inr s1"
    and fc: "pg_fillcomplete s1 = Inr s2"
  have "g_waitingforfill s1 = tl (g_waitingforfill s)"
    using sf
    by (auto simp: pg_startfill_def dq_remfirst_def and_then_def DEBUGASSERT_def Let_def
        up_unblock_task_def record_call_def split: list.splits if_splits option.splits)
  moreover have "g_waitingforfill s2 = g_waitingforfill s1"
    using fc
    by (auto simp: pg_fillcomplete_def up_unblock_task_def record_call_def split: option.splits)
  ultimately show "((c, a, s2), (c, a, s)) \<in> measure (\<lambda>(c, a, s). length (g_waitingforfill s))"
    using q by (cases "g_waitingforfill s") simp_all
qed

text \<open>The \<^verbatim>\<open>#else\<close> block, lines 512 to 532: the loop, then \<open>pg_alldone\<close>.\<close>

definition pg_worker_else :: "config \<Rightarrow> arch \<Rightarrow> pg_state \<Rightarrow> outcome" where
  "pg_worker_else c a s = and_then (pg_worker_while c a s) (\<lambda>s. Inr (pg_alldone c s))"

text \<open>
  One turn of the \<^verbatim>\<open>for (;;)\<close> loop, from the return of \<open>usleep\<close> to the next call
  of it: the conditional of line 444 chooses the block.
\<close>

definition pg_worker_body :: "config \<Rightarrow> arch \<Rightarrow> pg_state \<Rightarrow> outcome" where
  "pg_worker_body c a s =
     (if CONFIG_PAGING_BLOCKINGFILL c then pg_worker_ifdef c a s else pg_worker_else c a s)"

text \<open>The state a run stops or goes on in.\<close>

definition final_state :: "outcome \<Rightarrow> pg_state" where
  "final_state r = (case r of Inl (f, s) \<Rightarrow> s | Inr s \<Rightarrow> s)"

text \<open>
  Which builds there are. With \<open>CONFIG_PAGING_BLOCKINGFILL\<close> defined the file does
  not compile: the block that line 444 selects reads \<open>g_fillresult\<close> (lines 456 and
  460), which is declared only when the option is not defined (line 100), and the
  condition of line 486 is not well formed. Without the option and with
  \<open>CONFIG_PAGING_TIMEOUT_TICKS\<close> set it does not compile either: line 113 reads
  \<^verbatim>\<open>status uint32_t g_starttime;\<close>, and line 297 then assigns a variable that is not
  declared. The build that compiles is the one with neither option, and its worker is
  the \<^verbatim>\<open>#else\<close> block. The definitions above follow the text of the source for every
  setting of the options; statements about the program that runs are those about
  builds without \<open>CONFIG_PAGING_BLOCKINGFILL\<close>.
\<close>

subsection \<open>The invariant of the worker's priority\<close>


subsection \<open>A state without its result and its times\<close>

text \<open>
  \<open>untimed\<close> blanks the result field, the start time and the clock, and leaves the
  slot, the queue, the worker's priority and the log; \<open>untimed_outcome\<close> does so in
  the state a run ends in and keeps whether it ended in a fault, and in which.
\<close>

definition untimed :: "pg_state \<Rightarrow> pg_state" where
  "untimed s = s\<lparr>g_fillresult := 0, g_starttime := 0, g_system_timer := 0\<rparr>"

definition untimed_outcome :: "outcome \<Rightarrow> outcome" where
  "untimed_outcome r = (case r of Inl (f, s) \<Rightarrow> Inl (f, untimed s) | Inr s \<Rightarrow> Inr (untimed s))"

subsection \<open>Sample tasks, builds and states\<close>

text \<open>
  Two tasks; the errno numbering of the usual headers; a build without
  \<open>CONFIG_PAGING_BLOCKINGFILL\<close> and without a timeout, and the options of one with
  \<open>CONFIG_PAGING_BLOCKINGFILL\<close>; an architecture layer whose calls all succeed and that reports
  every page as still to be filled (a value other than \<open>OK\<close> from
  \<open>up_checkmapping\<close>), one that reports every page as mapped, and one whose
  \<open>up_allocpage\<close> fails.
\<close>

definition task_A :: tcb where
  "task_A = \<lparr>pid = 1, sched_priority = 10\<rparr>"

definition task_B :: tcb where
  "task_B = \<lparr>pid = 2, sched_priority = 100\<rparr>"

definition build_nonblocking :: config where
  "build_nonblocking =
     \<lparr>CONFIG_PAGING_BLOCKINGFILL = False, CONFIG_PAGING_TIMEOUT_TICKS = None,
      CONFIG_PAGING_DEFPRIO = 50, defined_empty = False, OK = 0, EBUSY = 16, ENOSYS = 38\<rparr>"

definition build_blocking :: config where
  "build_blocking = build_nonblocking\<lparr>CONFIG_PAGING_BLOCKINGFILL := True\<rparr>"

definition arch_fill :: arch where
  "arch_fill = \<lparr>up_checkmapping = (\<lambda>_ _. - 1), up_allocpage = (\<lambda>_ _. 0), up_fillpage = (\<lambda>_ _. 0)\<rparr>"

definition arch_mapped :: arch where
  "arch_mapped = arch_fill\<lparr>up_checkmapping := (\<lambda>_ _. 0)\<rparr>"

definition arch_nomem :: arch where
  "arch_nomem = arch_fill\<lparr>up_allocpage := (\<lambda>_ _. - 12)\<rparr>"

text \<open>
  The worker asleep with nothing to do, at the default priority of the sample builds,
  and states around it: tasks waiting (the worker already at the priority of the
  head), a fill for \<open>task_A\<close> under way, with and without \<open>task_B\<close> waiting,
  and with a failure stored as its result.
\<close>

definition idle :: pg_state where
  "idle =
     \<lparr>g_pendingfilltcb = None, g_waitingforfill = [], g_fillresult = 0, g_starttime = 0,
      g_system_timer = 0, wtcb_priority = 50, calls = []\<rparr>"

definition waiting_A :: pg_state where
  "waiting_A = idle\<lparr>g_waitingforfill := [task_A]\<rparr>"

definition waiting_B :: pg_state where
  "waiting_B = idle\<lparr>g_waitingforfill := [task_B], wtcb_priority := 100\<rparr>"

definition waiting_B_A :: pg_state where
  "waiting_B_A = idle\<lparr>g_waitingforfill := [task_B, task_A], wtcb_priority := 100\<rparr>"

definition filling_A :: pg_state where
  "filling_A = idle\<lparr>g_pendingfilltcb := Some task_A\<rparr>"

definition filling_A_waiting_B :: pg_state where
  "filling_A_waiting_B = idle\<lparr>g_pendingfilltcb := Some task_A, g_waitingforfill := [task_B]\<rparr>"

definition filling_A_done_waiting_B :: pg_state where
  "filling_A_done_waiting_B =
     idle\<lparr>g_pendingfilltcb := Some task_A, g_waitingforfill := [task_B], wtcb_priority := 100\<rparr>"

definition filling_A_failed :: pg_state where
  "filling_A_failed = idle\<lparr>g_pendingfilltcb := Some task_A, g_fillresult := - 38\<rparr>"

section \<open>Properties\<close>

lemmas pg_defs =
  pg_startfill_def pg_callback_def pg_alldone_def pg_fillcomplete_def pg_worker_ifdef_def
  pg_worker_else_def pg_worker_body_def dq_remfirst_def and_then_def ASSERT_def DEBUGASSERT_def
  sched_setpriority_def up_unblock_task_def kill_SIGWORK_def record_call_def final_state_def

declare pg_worker_while.simps [simp del]

subsection \<open>The loop\<close>

lemma pg_worker_while_empty: "g_waitingforfill s = [] \<Longrightarrow> pg_worker_while c a s = Inr s"
  by (simp add: pg_worker_while.simps)

lemma pg_worker_while_step:
  "g_waitingforfill s \<noteq> [] \<Longrightarrow>
   pg_worker_while c a s =
     (case pg_startfill c a s of
        Inl x \<Rightarrow> Inl x
      | Inr s1 \<Rightarrow>
          (case pg_fillcomplete s1 of
             Inl x \<Rightarrow> Inl x
           | Inr s2 \<Rightarrow> pg_worker_while c a s2))"
  by (simp add: pg_worker_while.simps)



text \<open>
  When \<open>up_checkmapping\<close> reports the page as mapped, \<open>pg_startfill\<close> has
  unblocked the task and emptied the slot itself; the \<open>pg_fillcomplete\<close> that
  follows in the loop (line 527) then hands \<open>NULL\<close> to \<open>up_unblock_task\<close>.
\<close>

lemma pg_worker_else_mapped:
  "pg_worker_else build_nonblocking arch_mapped waiting_B =
     Inl (Null_tcb,
          waiting_B\<lparr>g_waitingforfill := [],
                      calls := [Up_checkmapping task_B, Up_unblock_task task_B]\<rparr>)"
  by (simp add: waiting_B_def task_B_def arch_mapped_def build_nonblocking_def arch_fill_def
      idle_def pg_defs pg_worker_while_step)

subsection \<open>Who writes the worker's priority\<close>

text \<open>
  With a fill pending, \<open>pg_callback\<close> leaves the worker at least as high as the task
  in the slot and as the head of the queue, and never lower than it was.
  \<open>pg_startfill\<close> and \<open>pg_fillcomplete\<close> do not write the priority;
  \<open>pg_alldone\<close> sets the default and empties the slot.
\<close>

lemma pg_callback_priority:
  assumes "g_pendingfilltcb s = Some p"
  shows "sched_priority p \<le> wtcb_priority (pg_callback c tcb result s)"
    and "g_waitingforfill s = htcb # rest \<Longrightarrow>
         sched_priority htcb \<le> wtcb_priority (pg_callback c tcb result s)"
    and "wtcb_priority s \<le> wtcb_priority (pg_callback c tcb result s)"
  using assms by (auto simp: pg_defs Let_def split: list.splits)






subsection \<open>What the block of lines 445 to 510 does with a fill under way\<close>

text \<open>
  A stored result other than \<open>- EBUSY\<close> and other than \<open>OK\<close> fails the
  \<open>ASSERT\<close> of line 460. On \<open>OK\<close> the task in the slot is unblocked; then
  \<open>pg_startfill\<close> runs if a task waits, else \<open>pg_alldone\<close>. With no result
  and the timeout compiled in, an elapsed time of the budget or more fails the
  \<open>ASSERT\<close> of line 490.
\<close>

lemma pg_worker_ifdef_failure:
  assumes "g_pendingfilltcb s = Some p" and "g_fillresult s \<noteq> - EBUSY c" and "g_fillresult s \<noteq> OK c"
  shows "pg_worker_ifdef c a s = Inl (Assertion_failed, s)"
  using assms by (simp add: pg_defs)

lemma pg_worker_ifdef_next:
  assumes "g_pendingfilltcb s = Some p" and "g_fillresult s \<noteq> - EBUSY c" and "g_fillresult s = OK c"
    and "g_waitingforfill s \<noteq> []"
  shows "pg_worker_ifdef c a s = pg_startfill c a (up_unblock_task p s)"
  using assms by (simp add: pg_defs)

lemma pg_worker_ifdef_last:
  assumes "g_pendingfilltcb s = Some p" and "g_fillresult s \<noteq> - EBUSY c" and "g_fillresult s = OK c"
    and "g_waitingforfill s = []"
  shows "pg_worker_ifdef c a s =
           Inr (s\<lparr>g_pendingfilltcb := None, wtcb_priority := CONFIG_PAGING_DEFPRIO c,
                  calls := calls s @ [Up_unblock_task p, Sched_setpriority (CONFIG_PAGING_DEFPRIO c)]\<rparr>)"
  using assms by (simp add: pg_defs)

lemma pg_worker_ifdef_timeout:
  assumes "g_pendingfilltcb s = Some p" and "g_fillresult s = - EBUSY c"
    and "defined_empty c" and "CONFIG_PAGING_TIMEOUT_TICKS c = Some ticks"
    and "ticks \<le> g_system_timer s - g_starttime s"
  shows "pg_worker_ifdef c a s = Inl (Assertion_failed, s\<lparr>calls := calls s @ [Dbg_timeout]\<rparr>)"
  using assms by (simp add: pg_defs Let_def)

subsection \<open>Who writes the result field\<close>

lemma pg_startfill_fillresult: "g_fillresult (final_state (pg_startfill c a s)) = g_fillresult s"
  by (simp add: pg_defs Let_def split: option.splits list.splits)

lemma pg_fillcomplete_fillresult: "g_fillresult (final_state (pg_fillcomplete s)) = g_fillresult s"
  by (simp add: pg_defs split: option.splits)

lemma pg_worker_while_fillresult: "g_fillresult (final_state (pg_worker_while c a s)) = g_fillresult s"
proof (induction c a s rule: pg_worker_while.induct)
  case (1 c a s)
  show ?case
  proof (cases "g_waitingforfill s = []")
    case True
    then show ?thesis by (simp add: pg_worker_while_empty final_state_def)
  next
    case False
    show ?thesis
    proof (cases "pg_startfill c a s")
      case (Inl x)
      with False pg_startfill_fillresult [of c a s] show ?thesis
        by (simp add: pg_worker_while_step)
    next
      case sf: (Inr s1)
      have r1: "g_fillresult s1 = g_fillresult s"
        using pg_startfill_fillresult [of c a s] sf by (simp add: final_state_def)
      show ?thesis
      proof (cases "pg_fillcomplete s1")
        case (Inl x)
        with False sf r1 pg_fillcomplete_fillresult [of s1] show ?thesis
          by (simp add: pg_worker_while_step)
      next
        case fc: (Inr s2)
        have r2: "g_fillresult s2 = g_fillresult s1"
          using pg_fillcomplete_fillresult [of s1] fc by (simp add: final_state_def)
        from "1.IH" [OF False sf fc] False sf fc r1 r2 show ?thesis
          by (simp add: pg_worker_while_step)
      qed
    qed
  qed
qed

text \<open>What \<open>pg_callback\<close> stores with a fill pending.\<close>

lemma pg_callback_stores:
  assumes "g_pendingfilltcb s = Some p"
  shows "g_fillresult (pg_callback c tcb result s) = (if result = - EBUSY c then - ENOSYS c else result)"
    and "ENOSYS c \<noteq> EBUSY c \<Longrightarrow> g_fillresult (pg_callback c tcb result s) \<noteq> - EBUSY c"
  using assms by (simp_all add: pg_defs Let_def split: list.splits)

subsection \<open>Who reads the result field and the times\<close>

text \<open>
  \<open>pg_startfill\<close>, \<open>pg_fillcomplete\<close> and the loop do the same from two states
  that differ in nothing but the result field, the start time and the clock.
\<close>

lemma untimed_eq:
  "untimed s = untimed s' \<longleftrightarrow>
     g_pendingfilltcb s = g_pendingfilltcb s' \<and> g_waitingforfill s = g_waitingforfill s'
     \<and> wtcb_priority s = wtcb_priority s' \<and> calls s = calls s'"
  by (cases s; cases s') (simp add: untimed_def)

lemma pg_startfill_untimed:
  assumes "untimed s = untimed s'"
  shows "untimed_outcome (pg_startfill c a s) = untimed_outcome (pg_startfill c a s')"
  using assms
  by (cases s; cases s')
    (simp add: untimed_def untimed_outcome_def pg_defs Let_def split: option.splits list.splits)

lemma pg_fillcomplete_untimed:
  assumes "untimed s = untimed s'"
  shows "untimed_outcome (pg_fillcomplete s) = untimed_outcome (pg_fillcomplete s')"
  using assms
  by (cases s; cases s')
    (simp add: untimed_def untimed_outcome_def pg_defs split: option.splits)

lemma untimed_outcome_cases:
  assumes "untimed_outcome r = untimed_outcome r'"
  shows "(\<exists>f s s'. r = Inl (f, s) \<and> r' = Inl (f, s') \<and> untimed s = untimed s')
       \<or> (\<exists>s s'. r = Inr s \<and> r' = Inr s' \<and> untimed s = untimed s')"
  using assms by (auto simp: untimed_outcome_def split: sum.splits prod.splits)

lemma pg_worker_while_untimed:
  "untimed s = untimed s' \<Longrightarrow>
   untimed_outcome (pg_worker_while c a s) = untimed_outcome (pg_worker_while c a s')"
proof (induction c a s arbitrary: s' rule: pg_worker_while.induct)
  case (1 c a s)
  from "1.prems" have q: "g_waitingforfill s' = g_waitingforfill s"
    by (simp add: untimed_eq)
  show ?case
  proof (cases "g_waitingforfill s = []")
    case True
    with q "1.prems" show ?thesis
      by (simp add: pg_worker_while_empty untimed_outcome_def)
  next
    case False
    from untimed_outcome_cases [OF pg_startfill_untimed [OF "1.prems", of c a]]
    show ?thesis
    proof (elim disjE exE conjE)
      fix f t t'
      assume "pg_startfill c a s = Inl (f, t)" "pg_startfill c a s' = Inl (f, t')"
        "untimed t = untimed t'"
      with False q show ?thesis
        by (simp add: pg_worker_while_step untimed_outcome_def)
    next
      fix s1 s1'
      assume sf: "pg_startfill c a s = Inr s1" and sf': "pg_startfill c a s' = Inr s1'"
        and u1: "untimed s1 = untimed s1'"
      from untimed_outcome_cases [OF pg_fillcomplete_untimed [OF u1]]
      show ?thesis
      proof (elim disjE exE conjE)
        fix f t t'
        assume "pg_fillcomplete s1 = Inl (f, t)" "pg_fillcomplete s1' = Inl (f, t')"
          "untimed t = untimed t'"
        with False q sf sf' show ?thesis
          by (simp add: pg_worker_while_step untimed_outcome_def)
      next
        fix s2 s2'
        assume fc: "pg_fillcomplete s1 = Inr s2" and fc': "pg_fillcomplete s1' = Inr s2'"
          and u2: "untimed s2 = untimed s2'"
        from "1.IH" [OF False sf fc u2] False q sf sf' fc fc' show ?thesis
          by (simp add: pg_worker_while_step)
      qed
    qed
  qed
qed

lemma pg_worker_else_untimed:
  assumes "untimed s = untimed s'"
  shows "untimed_outcome (pg_worker_else c a s) = untimed_outcome (pg_worker_else c a s')"
proof -
  from untimed_outcome_cases [OF pg_worker_while_untimed [OF assms, of c a]]
  show ?thesis
  proof (elim disjE exE conjE)
    fix f t t'
    assume "pg_worker_while c a s = Inl (f, t)" "pg_worker_while c a s' = Inl (f, t')"
      "untimed t = untimed t'"
    then show ?thesis
      by (simp add: pg_worker_else_def and_then_def untimed_outcome_def)
  next
    fix t t'
    assume "pg_worker_while c a s = Inr t" "pg_worker_while c a s' = Inr t'"
      and "untimed t = untimed t'"
    then show ?thesis
      by (cases t; cases t')
        (simp add: pg_worker_else_def and_then_def untimed_outcome_def untimed_def pg_alldone_def
          sched_setpriority_def record_call_def)
  qed
qed

section \<open>The claims\<close>

subsection \<open>C1: the worker's priority\<close>



subsection \<open>C2: a completed fill, without \<^verbatim>\<open>CONFIG_PAGING_BLOCKINGFILL\<close>\<close>

text \<open>
  C2 says that without \<open>CONFIG_PAGING_BLOCKINGFILL\<close>, a worker that wakes with a
  task in the slot and a result other than \<open>- EBUSY\<close> fails an assertion unless the
  result is \<open>OK\<close>, and on \<open>OK\<close> unblocks the task and starts the next fill or
  resets.

  The code that does so (\<open>pg_worker_ifdef_failure\<close>, \<open>pg_worker_ifdef_next\<close>,
  \<open>pg_worker_ifdef_last\<close>) is compiled under \<^verbatim>\<open>#ifdef CONFIG_PAGING_BLOCKINGFILL\<close>
  (line 444), although its comment (line 445) and the declaration of
  \<open>g_fillresult\<close> (line 100) place it in the build without the option. Without the
  option the worker runs the loop of lines 516 to 532, which never reads
  \<open>g_fillresult\<close>. First conjunct: with \<open>task_A\<close> in the slot and the failure
  \<open>- ENOSYS\<close> stored, the worker fails no assertion; it empties the slot and resets
  its priority, and \<open>task_A\<close> is not unblocked. Second conjunct: from the idle state
  with \<open>task_A\<close> waiting, the fill is started and the task unblocked in the same
  wake, before any result exists.
\<close>

theorem nonblocking_worker_ignores_result:
  "g_pendingfilltcb filling_A_failed = Some task_A
   \<and> g_fillresult filling_A_failed = - ENOSYS build_nonblocking
   \<and> pg_worker_body build_nonblocking arch_fill filling_A_failed =
       Inr (filling_A_failed\<lparr>g_pendingfilltcb := None, calls := [Sched_setpriority 50]\<rparr>)
   \<and> pg_worker_body build_nonblocking arch_fill waiting_A =
       Inr (waiting_A\<lparr>g_waitingforfill := [],
                       calls := [Up_checkmapping task_A, Up_allocpage task_A, Up_fillpage task_A,
                                 Up_unblock_task task_A, Sched_setpriority 50]\<rparr>)"
  by (simp add: filling_A_failed_def waiting_A_def task_A_def build_nonblocking_def
      arch_fill_def idle_def pg_defs pg_worker_while_empty pg_worker_while_step)

subsection \<open>C3: one wake, with \<^verbatim>\<open>CONFIG_PAGING_BLOCKINGFILL\<close>\<close>

text \<open>
  C3 says that with \<open>CONFIG_PAGING_BLOCKINGFILL\<close> each wake works through the whole
  queue (dequeue, fill, unblock) and then resets the worker with the slot empty.

  There is no such build: with the option defined the file does not compile. The loop
  that C3 describes, lines 516 to 532, is in the \<^verbatim>\<open>#else\<close> block of line 444 and so
  in the build without the option, where \<open>up_fillpage\<close> is the call that only starts
  a fill and reports through \<open>pg_callback\<close> (line 289). There, woken with
  \<open>task_B\<close> and \<open>task_A\<close> waiting, the worker works through the queue in one
  wake, unblocks each task as soon as its fill is started, and resets.
\<close>

theorem draining_loop_in_nonblocking_build:
  "\<not> CONFIG_PAGING_BLOCKINGFILL build_nonblocking
   \<and> CONFIG_PAGING_TIMEOUT_TICKS build_nonblocking = None
   \<and> pg_worker_body build_nonblocking arch_fill waiting_B_A =
       Inr (waiting_B_A\<lparr>g_waitingforfill := [], wtcb_priority := 50,
                       calls := [Up_checkmapping task_B, Up_allocpage task_B, Up_fillpage task_B,
                                 Up_unblock_task task_B, Up_checkmapping task_A, Up_allocpage task_A,
                                 Up_fillpage task_A, Up_unblock_task task_A, Sched_setpriority 50]\<rparr>)"
  by (simp add: waiting_B_A_def task_A_def task_B_def build_nonblocking_def arch_fill_def idle_def
      pg_defs pg_worker_while_empty pg_worker_while_step)

subsection \<open>C4: the timeout\<close>

text \<open>
  C4 says that without \<open>CONFIG_PAGING_BLOCKINGFILL\<close> and with
  \<open>CONFIG_PAGING_TIMEOUT_TICKS\<close> set, a worker that wakes with a task in the slot,
  no result, and more than the budget elapsed since the fill began fails an assertion.

  There is no such build: with the timeout set the file does not compile (line 113),
  and the test of lines 486 to 491 stands in the block compiled with
  \<open>CONFIG_PAGING_BLOCKINGFILL\<close>, which does not compile either. In every build
  without \<open>CONFIG_PAGING_BLOCKINGFILL\<close> the worker is the loop, and what a wake does
  does not depend on the result field, on the start time or on the clock: whether it
  ends in a fault, the calls it makes, and the slot, the queue and the priority it
  leaves are the same whatever these three hold. No wake fails because a fill has been
  pending for too long.
\<close>

theorem worker_never_reads_the_clock:
  assumes "\<not> CONFIG_PAGING_BLOCKINGFILL c"
  shows "untimed_outcome
           (pg_worker_body c a
              (s\<lparr>g_fillresult := r, g_starttime := started, g_system_timer := now\<rparr>)) =
         untimed_outcome (pg_worker_body c a s)"
proof -
  have "untimed (s\<lparr>g_fillresult := r, g_starttime := started, g_system_timer := now\<rparr>) = untimed s"
    by (simp add: untimed_def)
  from pg_worker_else_untimed [OF this] assms show ?thesis
    by (simp add: pg_worker_body_def)
qed

text \<open>
  In the build that compiles: with \<open>task_A\<close> waiting, the result field at
  \<open>- EBUSY\<close> and the clock a thousand ticks past the start time, the wake does what
  it does from \<open>waiting_A\<close>; and woken again a thousand ticks after that wake, with
  no completion received for the fill it started, the worker fails no assertion.
\<close>

theorem worker_never_reads_the_clock_witness:
  "\<not> CONFIG_PAGING_BLOCKINGFILL build_nonblocking
   \<and> untimed_outcome
        (pg_worker_body build_nonblocking arch_fill
           (waiting_A\<lparr>g_fillresult := - 16, g_starttime := 0, g_system_timer := 1000\<rparr>)) =
       Inr (waiting_A\<lparr>g_waitingforfill := [],
                       calls := [Up_checkmapping task_A, Up_allocpage task_A, Up_fillpage task_A,
                                 Up_unblock_task task_A, Sched_setpriority 50]\<rparr>)
   \<and> pg_worker_body build_nonblocking arch_fill
        ((final_state (pg_worker_body build_nonblocking arch_fill waiting_A))
           \<lparr>g_system_timer := 1000\<rparr>) =
       Inr (waiting_A\<lparr>g_waitingforfill := [], g_system_timer := 1000,
                       calls := [Up_checkmapping task_A, Up_allocpage task_A, Up_fillpage task_A,
                                 Up_unblock_task task_A, Sched_setpriority 50,
                                 Sched_setpriority 50]\<rparr>)"
  using worker_never_reads_the_clock
      [where c = build_nonblocking and a = arch_fill and s = waiting_A and r = "- 16"
         and started = 0 and now = 1000]
  by (simp add: waiting_A_def task_A_def build_nonblocking_def arch_fill_def idle_def pg_defs
      pg_worker_while_empty pg_worker_while_step untimed_def untimed_outcome_def)

subsection \<open>C5: the mapping check comes first\<close>

text \<open>
  C5: whenever \<open>pg_startfill\<close> takes a task off the queue, the first call it makes
  is \<open>up_checkmapping\<close> for that task, before any \<open>up_allocpage\<close> or
  \<open>up_fillpage\<close>: the calls it makes are the check and the unblock, or the check
  and the allocation, or the check, the allocation and the fill. If the check returns
  \<open>OK\<close> (the page is mapped), the task is unblocked, the slot is emptied, and no page
  is allocated and no fill made.
\<close>

theorem pg_startfill_checks_mapping_first:
  assumes "g_waitingforfill s = t # rest"
  shows "take (Suc (length (calls s))) (calls (final_state (pg_startfill c a s))) =
           calls s @ [Up_checkmapping t]
       \<and> drop (length (calls s)) (calls (final_state (pg_startfill c a s))) \<in>
           {[Up_checkmapping t, Up_unblock_task t],
            [Up_checkmapping t, Up_allocpage t],
            [Up_checkmapping t, Up_allocpage t, Up_fillpage t]}
       \<and> (up_checkmapping a (calls s) t = OK c \<longrightarrow>
            pg_startfill c a s =
              Inr (s\<lparr>g_pendingfilltcb := None, g_waitingforfill := rest,
                     calls := calls s @ [Up_checkmapping t, Up_unblock_task t]\<rparr>))"
  using assms by (simp add: pg_defs Let_def split: option.splits)

theorem pg_startfill_checks_mapping_first_witness:
  "g_waitingforfill waiting_B = [task_B]
   \<and> up_checkmapping arch_mapped (calls waiting_B) task_B = OK build_nonblocking
   \<and> take 1 (calls (final_state (pg_startfill build_nonblocking arch_mapped waiting_B))) =
       [Up_checkmapping task_B]
   \<and> pg_startfill build_nonblocking arch_mapped waiting_B =
       Inr (waiting_B\<lparr>g_pendingfilltcb := None, g_waitingforfill := [],
                       calls := [Up_checkmapping task_B, Up_unblock_task task_B]\<rparr>)"
  using pg_startfill_checks_mapping_first [of waiting_B task_B "[]" build_nonblocking arch_mapped]
  by (simp add: waiting_B_def task_B_def arch_mapped_def build_nonblocking_def arch_fill_def
      idle_def final_state_def)

subsection \<open>C6: a completion never stores \<^verbatim>\<open>-EBUSY\<close>\<close>

text \<open>
  C6 says that when \<open>pg_callback\<close> is called with a fill pending, a reported result
  of \<open>- EBUSY\<close> is stored as \<open>- ENOSYS\<close>, so that the stored result is never
  \<open>- EBUSY\<close> and the worker, when it next looks, takes it for a failure and not for
  a fill still under way.

  The callback does store \<open>- ENOSYS\<close> (\<open>pg_callback_stores\<close>). The worker that
  runs beside it, in the build without \<open>CONFIG_PAGING_BLOCKINGFILL\<close>, is the loop of
  lines 516 to 532, which never reads the field (the test of lines 456 to 460 is
  compiled only with the option, line 444): with \<open>task_A\<close> in the slot and a
  completion of \<open>- EBUSY\<close>, the field reads \<open>- ENOSYS\<close>, and the next wake fails
  no assertion; it empties the slot and resets the priority, and \<open>task_A\<close> is not
  unblocked.
\<close>

theorem stored_failure_not_examined:
  "g_pendingfilltcb filling_A = Some task_A
   \<and> g_fillresult (pg_callback build_nonblocking task_A (- EBUSY build_nonblocking) filling_A) =
       - ENOSYS build_nonblocking
   \<and> - ENOSYS build_nonblocking \<noteq> - EBUSY build_nonblocking
   \<and> - ENOSYS build_nonblocking \<noteq> OK build_nonblocking
   \<and> pg_worker_body build_nonblocking arch_fill
        (pg_callback build_nonblocking task_A (- EBUSY build_nonblocking) filling_A) =
       Inr (filling_A\<lparr>g_pendingfilltcb := None, g_fillresult := - 38,
                     calls := [Kill_SIGWORK, Sched_setpriority 50]\<rparr>)"
  by (simp add: filling_A_def task_A_def build_nonblocking_def arch_fill_def idle_def pg_defs
      pg_worker_while_empty)

subsection \<open>C7: the wake signal\<close>

text \<open>
  C7: every call of \<open>pg_callback\<close> sends the worker its signal, whatever the slot
  and the queue hold: the calls it adds to the log end with
  \<open>kill(g_pgworker, SIGWORK)\<close>. With the slot empty the signal is all it does: the
  result field, the queue, the worker's priority and the slot are as before.
\<close>

theorem pg_callback_always_signals:
  "take (length (calls s)) (calls (pg_callback c tcb result s)) = calls s
   \<and> drop (length (calls s)) (calls (pg_callback c tcb result s)) \<noteq> []
   \<and> last (drop (length (calls s)) (calls (pg_callback c tcb result s))) = Kill_SIGWORK
   \<and> (g_pendingfilltcb s = None \<longrightarrow>
        pg_callback c tcb result s = s\<lparr>calls := calls s @ [Kill_SIGWORK]\<rparr>)"
  by (simp add: pg_defs Let_def split: option.splits list.splits)

theorem pg_callback_always_signals_witness:
  "g_pendingfilltcb waiting_B = None
   \<and> pg_callback build_nonblocking task_A 0 waiting_B = waiting_B\<lparr>calls := [Kill_SIGWORK]\<rparr>
   \<and> last (calls (pg_callback build_nonblocking task_A 0 waiting_B)) = Kill_SIGWORK"
  using pg_callback_always_signals [of waiting_B build_nonblocking task_A 0]
  by (simp add: waiting_B_def task_A_def task_B_def build_nonblocking_def arch_fill_def idle_def)

subsection \<open>C8: a failed allocation\<close>

text \<open>
  C8: when \<open>pg_startfill\<close> has taken a task off the queue whose page is still to be
  filled and \<open>up_allocpage\<close> does not return \<open>OK\<close>, the run stops at the
  assertion of line 262, \<open>DEBUGASSERT\<close> being a fatal assertion: the log ends with
  the allocation, so no fill is made and the task is not unblocked.
\<close>

theorem pg_startfill_alloc_failure_fatal:
  assumes "g_waitingforfill s = t # rest"
    and "up_checkmapping a (calls s) t \<noteq> OK c"
    and "up_allocpage a (calls s @ [Up_checkmapping t]) t \<noteq> OK c"
  shows "pg_startfill c a s =
           Inl (Assertion_failed,
                s\<lparr>g_pendingfilltcb := Some t, g_waitingforfill := rest,
                  calls := calls s @ [Up_checkmapping t, Up_allocpage t]\<rparr>)"
  using assms by (simp add: pg_defs Let_def)

theorem pg_startfill_alloc_failure_fatal_witness:
  "g_waitingforfill waiting_B_A = [task_B, task_A]
   \<and> up_checkmapping arch_nomem (calls waiting_B_A) task_B \<noteq> OK build_nonblocking
   \<and> up_allocpage arch_nomem (calls waiting_B_A @ [Up_checkmapping task_B]) task_B \<noteq> OK build_nonblocking
   \<and> pg_startfill build_nonblocking arch_nomem waiting_B_A =
       Inl (Assertion_failed,
            waiting_B_A\<lparr>g_pendingfilltcb := Some task_B, g_waitingforfill := [task_A],
                          calls := [Up_checkmapping task_B, Up_allocpage task_B]\<rparr>)"
  using pg_startfill_alloc_failure_fatal [of waiting_B_A task_B "[task_A]" arch_nomem build_nonblocking]
  by (simp add: waiting_B_A_def task_A_def task_B_def arch_nomem_def build_nonblocking_def
      arch_fill_def idle_def)

subsection \<open>C9: what \<^verbatim>\<open>pg_callback\<close> writes\<close>

text \<open>
  C9 says that \<open>pg_callback\<close> leaves the queue as it is and writes nothing but the
  result field and the wake signal. It also writes the worker's priority: with
  \<open>task_A\<close> (priority 10) in the slot, \<open>task_B\<close> (priority 100) at the head of
  the queue and the worker at 50, the callback raises the worker to 100 (lines 173 to
  188, as the function's header describes).
\<close>

theorem pg_callback_raises_priority_counterexample:
  "wtcb_priority filling_A_waiting_B = 50
   \<and> wtcb_priority (pg_callback build_nonblocking task_A 0 filling_A_waiting_B) = 100
   \<and> pg_callback build_nonblocking task_A 0 filling_A_waiting_B \<noteq>
       filling_A_waiting_B\<lparr>g_fillresult := 0, calls := calls filling_A_waiting_B @ [Kill_SIGWORK]\<rparr>"
  by (simp add: filling_A_waiting_B_def task_A_def task_B_def build_nonblocking_def
      arch_fill_def idle_def pg_defs)

text \<open>
  C9, amended: every call of \<open>pg_callback\<close> leaves the queue and the slot as they
  are. What it writes is the result field, the worker's priority and the log: the
  state after it is the state before it with these three fields set. With a fill
  pending the result field gets the reported result (\<open>- ENOSYS\<close> for
  \<open>- EBUSY\<close>), and with the slot empty it stays. The priority is never lowered: with
  a fill pending it becomes the highest of its old value, the priority of the task in
  the slot and that of the head of the queue, and with the slot empty it stays. The
  calls it makes are \<open>sched_setpriority\<close> with the new priority, if it has raised
  the priority, and then the wake signal, and no other.
\<close>

theorem pg_callback_write_surface:
  "g_waitingforfill (pg_callback c tcb result s) = g_waitingforfill s
   \<and> g_pendingfilltcb (pg_callback c tcb result s) = g_pendingfilltcb s
   \<and> pg_callback c tcb result s =
       s\<lparr>g_fillresult := g_fillresult (pg_callback c tcb result s),
         wtcb_priority := wtcb_priority (pg_callback c tcb result s),
         calls := calls (pg_callback c tcb result s)\<rparr>
   \<and> g_fillresult (pg_callback c tcb result s) =
       (case g_pendingfilltcb s of
          None \<Rightarrow> g_fillresult s
        | Some p \<Rightarrow> if result = - EBUSY c then - ENOSYS c else result)
   \<and> wtcb_priority (pg_callback c tcb result s) =
       (case g_pendingfilltcb s of
          None \<Rightarrow> wtcb_priority s
        | Some p \<Rightarrow>
            max (wtcb_priority s)
              (case g_waitingforfill s of
                 [] \<Rightarrow> sched_priority p
               | htcb # _ \<Rightarrow> max (sched_priority p) (sched_priority htcb)))
   \<and> wtcb_priority s \<le> wtcb_priority (pg_callback c tcb result s)
   \<and> calls (pg_callback c tcb result s) =
       calls s
       @ (if wtcb_priority s < wtcb_priority (pg_callback c tcb result s)
          then [Sched_setpriority (wtcb_priority (pg_callback c tcb result s))] else [])
       @ [Kill_SIGWORK]
   \<and> last (calls (pg_callback c tcb result s)) = Kill_SIGWORK"
  by (simp add: pg_defs Let_def split: option.splits list.splits)

subsection \<open>C10: starting a fill leaves the result field alone\<close>

text \<open>
  C10: \<open>pg_startfill\<close> does not write \<open>g_fillresult\<close>, and neither does any
  other step of the worker (the callback is the one place that does): whatever a wake
  does, and whether it ends in a fault or not, the field is what it was. So when the
  worker wakes on a result other than \<open>- EBUSY\<close> and starts the next fill, the field
  still holds the result of the fill before, not \<open>- EBUSY\<close>.
\<close>

theorem g_fillresult_kept:
  "g_fillresult (final_state (pg_startfill c a s)) = g_fillresult s
   \<and> g_fillresult (final_state (pg_worker_body c a s)) = g_fillresult s
   \<and> (g_fillresult s \<noteq> - EBUSY c \<longrightarrow>
        g_fillresult (final_state (pg_worker_body c a s)) \<noteq> - EBUSY c)"
proof -
  have sf: "g_fillresult (final_state (pg_startfill c a s)) = g_fillresult s"
    by (rule pg_startfill_fillresult)
  have el: "g_fillresult (final_state (pg_worker_else c a s)) = g_fillresult s"
    using pg_worker_while_fillresult [of c a s]
    by (cases "pg_worker_while c a s")
      (auto simp: pg_worker_else_def and_then_def final_state_def pg_alldone_def
        sched_setpriority_def record_call_def)
  have fi: "g_fillresult (final_state (pg_worker_ifdef c a s)) = g_fillresult s"
  proof (cases "g_pendingfilltcb s")
    case None
    then show ?thesis
      using pg_startfill_fillresult [of c a s] by (simp add: pg_worker_ifdef_def final_state_def)
  next
    case (Some p)
    have "g_fillresult (final_state (pg_startfill c a (up_unblock_task p s))) = g_fillresult s"
      using pg_startfill_fillresult [of c a "up_unblock_task p s"]
      by (simp add: up_unblock_task_def record_call_def)
    with Some show ?thesis
      by (simp add: pg_worker_ifdef_def and_then_def ASSERT_def pg_fillcomplete_def
          pg_alldone_def sched_setpriority_def record_call_def up_unblock_task_def
          final_state_def Let_def split: option.splits)
  qed
  from sf el fi show ?thesis
    by (simp add: pg_worker_body_def)
qed

text \<open>
  A wake that processes the completion of the fill for \<open>task_A\<close> (result \<open>OK\<close>)
  and starts the fill for \<open>task_B\<close>: the field still reads \<open>OK\<close>.
\<close>

theorem g_fillresult_kept_witness:
  "g_fillresult filling_A_done_waiting_B \<noteq> - EBUSY build_blocking
   \<and> g_pendingfilltcb (final_state (pg_worker_body build_blocking arch_fill filling_A_done_waiting_B)) =
       Some task_B
   \<and> g_fillresult (final_state (pg_worker_body build_blocking arch_fill filling_A_done_waiting_B)) = 0
   \<and> g_fillresult (final_state (pg_worker_body build_blocking arch_fill filling_A_done_waiting_B)) \<noteq>
       - EBUSY build_blocking"
  using g_fillresult_kept [of build_blocking arch_fill filling_A_done_waiting_B]
  by (simp add: filling_A_done_waiting_B_def task_A_def task_B_def build_blocking_def
      build_nonblocking_def arch_fill_def idle_def pg_defs)

end
